theory Spec2Isabelle
  imports Main
begin

section \<open>The SEO analysis form: data model\<close>

text \<open>
  The repository is one React component, \<^verbatim>\<open>src/components/SEOAnalysisForm.tsx\<close>. Its
  state is four \<^verbatim>\<open>useState\<close> cells (\<^verbatim>\<open>formData\<close>, \<^verbatim>\<open>isLoading\<close>, \<^verbatim>\<open>results\<close>,
  \<^verbatim>\<open>error\<close>); its behaviour is two event handlers and the JSX it returns.

  Conventions of the embedding:
  \<^item> a JavaScript string is a \<^typ>\<open>string\<close>, read as a sequence of code units below 256;
  \<^item> a JavaScript number that holds an integer is an \<^typ>\<open>int\<close> (the rounding of
    integers beyond \<open>2^53\<close> to a double is not modelled); \<^verbatim>\<open>NaN\<close> is \<open>None\<close>;
  \<^item> an optional property (\<^verbatim>\<open>data?\<close>, \<^verbatim>\<open>error?\<close>) is an \<^typ>\<open>'a option\<close>;
  \<^item> a thrown value is a value of type \<open>thrown\<close>, and a block that may throw returns
    \<open>thrown + 'a\<close>;
  \<^item> the \<^verbatim>\<open>async\<close> handler is split at its \<^verbatim>\<open>await\<close>: the part that runs synchronously
    returns the new state and the requests it has issued, the continuation takes the way
    the request settled.
\<close>

subsection \<open>The response payload (\<^verbatim>\<open>ApiResponse\<close>, lines 15-52)\<close>

text \<open>
  A JSON value. The request body is one (an object of strings and a number), and so is
  the nested block \<^verbatim>\<open>advanced_keywords\<close> of a response (lines 29-49), which the
  component receives and never inspects.
\<close>

datatype json =
  JNull | JBool bool | JNumber int | JString string
  | JArray "json list" | JObject "(string \<times> json) list"

record ApiData =
  url :: string
  word_count :: int
  language :: string
  keyword_analysis :: "string option"
  semantic_scores :: "string option"
  content_structure :: "string option"
  readability_analysis :: "string option"
  sentiment_analysis :: "string option"
  speed_analysis :: "string option"
  seo_suggestions :: "string option"
  content_gaps :: "string option"
  advanced_keywords :: "json option"

record ApiResponse =
  success :: bool
  data :: "ApiData option"
  error :: "string option"

subsection \<open>The form (\<^verbatim>\<open>FormData\<close>, lines 5-13) and the component state (lines 55-67)\<close>

text \<open>
  The form has a \<open>url\<close> and a \<open>language\<close> as the payload has, and the state an \<open>error\<close> as
  the response has. Below, the plain names are those of the form and of the state; those
  of the payload and of the response are written \<open>ApiData.url\<close>, \<open>ApiData.language\<close> and
  \<open>ApiResponse.error\<close>.
\<close>

record FormData =
  url :: string
  root_domain :: string
  account_identifier :: string
  language :: string
  date_range :: int
  start_date :: string
  end_date :: string

record component_state =
  formData :: FormData
  isLoading :: bool
  results :: "ApiData option"
  error :: string

definition initial_formData :: FormData where
  "initial_formData =
     \<lparr>url = '''', root_domain = '''', account_identifier = '''', language = ''en'',
      date_range = 30, start_date = '''', end_date = ''''\<rparr>"

definition initial_state :: component_state where
  "initial_state =
     \<lparr>formData = initial_formData, isLoading = False, results = None, error = ''''\<rparr>"


section \<open>Changing a field (\<^verbatim>\<open>handleInputChange\<close>, lines 69-75)\<close>

subsection \<open>The built-in \<^verbatim>\<open>parseInt\<close> with no radix argument\<close>

text \<open>
  ECMAScript's \<^verbatim>\<open>parseInt(string)\<close>: skip leading white space, read an optional sign,
  switch to radix 16 after a \<^verbatim>\<open>0x\<close> or \<^verbatim>\<open>0X\<close> prefix, read the longest run of digits of
  the radix and ignore what follows. No digit at all gives \<^verbatim>\<open>NaN\<close>, here \<open>None\<close>.
  The white space below is the part of \<^verbatim>\<open>StrWhiteSpaceChar\<close> that lies below 256:
  TAB, LF, VT, FF, CR, SP and NBSP.
\<close>

definition is_StrWhiteSpaceChar :: "char \<Rightarrow> bool" where
  "is_StrWhiteSpaceChar c = ((of_char c :: nat) \<in> {9, 10, 11, 12, 13, 32, 160})"

definition digit_value :: "char \<Rightarrow> nat option" where
  "digit_value c =
     (let n = (of_char c :: nat) in
      if 48 \<le> n \<and> n \<le> 57 then Some (n - 48)
      else if 97 \<le> n \<and> n \<le> 122 then Some (n - 87)
      else if 65 \<le> n \<and> n \<le> 90 then Some (n - 55)
      else None)"

definition is_radix_digit :: "nat \<Rightarrow> char \<Rightarrow> bool" where
  "is_radix_digit R c = (case digit_value c of None \<Rightarrow> False | Some d \<Rightarrow> d < R)"

fun radix_value :: "nat \<Rightarrow> nat \<Rightarrow> string \<Rightarrow> nat" where
  "radix_value R acc [] = acc"
| "radix_value R acc (c # Z) =
     radix_value R (acc * R + (case digit_value c of None \<Rightarrow> 0 | Some d \<Rightarrow> d)) Z"

definition parseInt :: "string \<Rightarrow> int option" where
  "parseInt inputString =
     (let S = dropWhile is_StrWhiteSpaceChar inputString;
          sign = (if take 1 S = ''-'' then - 1 else 1 :: int);
          S = (if take 1 S = ''+'' \<or> take 1 S = ''-'' then drop 1 S else S);
          stripPrefix = (take 2 S = ''0x'' \<or> take 2 S = ''0X'');
          R = (if stripPrefix then 16 else 10);
          S = (if stripPrefix then drop 2 S else S);
          Z = takeWhile (is_radix_digit R) S
      in if Z = [] then None else Some (sign * int (radix_value R 0 Z)))"

subsection \<open>The handler\<close>

text \<open>
  \<^verbatim>\<open>parseInt(value) || 30\<close>: the right operand is taken when the left one is falsy, and the
  falsy numbers are \<^verbatim>\<open>NaN\<close> and zero.
\<close>

definition number_or :: "int option \<Rightarrow> int \<Rightarrow> int" where
  "number_or l r = (case l of None \<Rightarrow> r | Some n \<Rightarrow> if n = 0 then r else n)"

text \<open>
  \<^verbatim>\<open>e.target.name\<close> is the \<^verbatim>\<open>name\<close> attribute of the element that fired the event. The
  handler is attached to seven elements (lines 134-248), so seven names occur.
\<close>

datatype input_name =
  Name_url | Name_root_domain | Name_account_identifier | Name_language
  | Name_date_range | Name_start_date | Name_end_date

fun name_attribute :: "input_name \<Rightarrow> string" where
  "name_attribute Name_url = ''url''"
| "name_attribute Name_root_domain = ''root_domain''"
| "name_attribute Name_account_identifier = ''account_identifier''"
| "name_attribute Name_language = ''language''"
| "name_attribute Name_date_range = ''date_range''"
| "name_attribute Name_start_date = ''start_date''"
| "name_attribute Name_end_date = ''end_date''"

text \<open>
  The updater \<^verbatim>\<open>prev => ({...prev, [name]: ...})\<close>: every field of \<open>prev\<close> is kept but the one
  called \<open>name\<close>. Only \<^verbatim>\<open>date_range\<close> is parsed; every other field stores \<open>value\<close> as typed.
\<close>

fun set_field :: "input_name \<Rightarrow> string \<Rightarrow> FormData \<Rightarrow> FormData" where
  "set_field Name_url v prev = prev\<lparr>url := v\<rparr>"
| "set_field Name_root_domain v prev = prev\<lparr>root_domain := v\<rparr>"
| "set_field Name_account_identifier v prev = prev\<lparr>account_identifier := v\<rparr>"
| "set_field Name_language v prev = prev\<lparr>language := v\<rparr>"
| "set_field Name_date_range v prev = prev\<lparr>date_range := number_or (parseInt v) 30\<rparr>"
| "set_field Name_start_date v prev = prev\<lparr>start_date := v\<rparr>"
| "set_field Name_end_date v prev = prev\<lparr>end_date := v\<rparr>"

definition handleInputChange :: "input_name \<Rightarrow> string \<Rightarrow> component_state \<Rightarrow> component_state" where
  "handleInputChange name v s = s\<lparr>formData := set_field name v (formData s)\<rparr>"

section \<open>Submitting (\<^verbatim>\<open>handleSubmit\<close>, lines 77-113)\<close>

subsection \<open>The request\<close>

text \<open>
  The body is \<^verbatim>\<open>JSON.stringify(formData)\<close>. It is modelled as the JSON value that the text
  denotes: an object whose members are the own properties of \<open>formData\<close> in their order
  of creation (line 55).
\<close>

definition JSON_stringify :: "FormData \<Rightarrow> json" where
  "JSON_stringify f =
     JObject
      [(''url'', JString (url f)),
       (''root_domain'', JString (root_domain f)),
       (''account_identifier'', JString (account_identifier f)),
       (''language'', JString (language f)),
       (''date_range'', JNumber (date_range f)),
       (''start_date'', JString (start_date f)),
       (''end_date'', JString (end_date f))]"

text \<open>The call \<^verbatim>\<open>fetch(resource, {method, headers, body})\<close> of lines 88-94.\<close>

record request =
  resource :: string
  http_method :: string
  headers :: "(string \<times> string) list"
  body :: json


definition fetch_call :: "FormData \<Rightarrow> request" where
  "fetch_call f =
     \<lparr>resource = ''https://seo-analyzer-api-n3b8.onrender.com/analyze'',
      http_method = ''POST'',
      headers = [(''Content-Type'', ''application/json'')],
      body = JSON_stringify f\<rparr>"

subsection \<open>How the request settles\<close>

text \<open>
  A thrown value is an \<^verbatim>\<open>Error\<close> with its message, or something else. \<^verbatim>\<open>fetch\<close> rejects
  (a \<^verbatim>\<open>TypeError\<close> on a network failure) or resolves to a response; \<^verbatim>\<open>response.json()\<close>
  rejects (a \<^verbatim>\<open>SyntaxError\<close>, with the parser's message, on a body that is not JSON) or
  resolves to the parsed value, which line 96 types as \<^verbatim>\<open>ApiResponse\<close>.

  That annotation is erased when the program runs, so the body \<^verbatim>\<open>null\<close>, which is JSON,
  reaches lines 98-106 too. There the first read of a property of \<open>data\<close> (\<^verbatim>\<open>data.error\<close> on
  line 99 when the status is not a success, \<^verbatim>\<open>data.success\<close> on line 102 when it is) throws
  a \<^verbatim>\<open>TypeError\<close>. \<open>Json_resolved_null\<close> is that body, and it carries the message the engine
  gives that \<^verbatim>\<open>TypeError\<close>, as \<open>Json_rejected\<close> carries the message of the parser. A body
  that is JSON of yet another shape (a number or an array as the whole body, a number for
  \<^verbatim>\<open>error\<close>) is not modelled: what is said below of a well-formed response is said of a
  body of the shape \<^verbatim>\<open>ApiResponse\<close>.
\<close>

datatype thrown = Error string | Not_an_Error

datatype json_outcome =
  Json_resolved ApiResponse | Json_resolved_null string | Json_rejected thrown

record Response =
  ok :: bool
  json :: json_outcome

datatype fetch_outcome = Fetch_resolved Response | Fetch_rejected thrown

subsection \<open>The handler, up to the \<^verbatim>\<open>await\<close> of line 88\<close>

definition handleSubmit_start :: "component_state \<Rightarrow> component_state \<times> request list" where
  "handleSubmit_start s =
     (if url (formData s) = '''' \<or> root_domain (formData s) = ''''
         \<or> account_identifier (formData s) = ''''
      then (s\<lparr>error := ''Please fill in all required fields''\<rparr>, [])
      else (s\<lparr>isLoading := True, error := '''', results := None\<rparr>, [fetch_call (formData s)]))"

subsection \<open>The handler, from the \<^verbatim>\<open>await\<close> on\<close>

text \<open>\<^verbatim>\<open>data.error || 'Analysis failed'\<close>: a missing and an empty string are both falsy.\<close>

definition string_or :: "string option \<Rightarrow> string \<Rightarrow> string" where
  "string_or l r = (case l of None \<Rightarrow> r | Some m \<Rightarrow> if m = '''' then r else m)"

text \<open>The \<^verbatim>\<open>try\<close> block (lines 88-106): \<open>Inl\<close> is a value thrown inside it.\<close>

definition try_block :: "fetch_outcome \<Rightarrow> component_state \<Rightarrow> thrown + component_state" where
  "try_block settled s =
     (case settled of
        Fetch_rejected e \<Rightarrow> Inl e
      | Fetch_resolved response \<Rightarrow>
          (case json response of
             Json_rejected e \<Rightarrow> Inl e
           | Json_resolved_null type_error_message \<Rightarrow> Inl (Error type_error_message)
           | Json_resolved d \<Rightarrow>
               if \<not> ok response
               then Inl (Error (string_or (ApiResponse.error d) ''Analysis failed''))
               else if success d \<and> data d \<noteq> None then Inr (s\<lparr>results := data d\<rparr>)
               else Inl (Error (string_or (ApiResponse.error d) ''Analysis failed''))))"

text \<open>The \<^verbatim>\<open>catch\<close> clause (lines 107-109) and the \<^verbatim>\<open>finally\<close> clause (lines 110-112).\<close>

definition catch_block :: "thrown \<Rightarrow> component_state \<Rightarrow> component_state" where
  "catch_block err s =
     s\<lparr>error := (case err of Error message \<Rightarrow> message
                   | Not_an_Error \<Rightarrow> ''An error occurred during analysis'')\<rparr>"

definition handleSubmit_resume :: "fetch_outcome \<Rightarrow> component_state \<Rightarrow> component_state" where
  "handleSubmit_resume settled s =
     (case try_block settled s of Inr s' \<Rightarrow> s' | Inl err \<Rightarrow> catch_block err s)
       \<lparr>isLoading := False\<rparr>"

subsection \<open>One whole submission\<close>

text \<open>
  \<open>handleSubmit settled s\<close> runs the handler from state \<open>s\<close> to its end, the request (if one
  is issued) settling as \<open>settled\<close>. It returns the final state and the requests issued.
\<close>

definition handleSubmit :: "fetch_outcome \<Rightarrow> component_state \<Rightarrow> component_state \<times> request list" where
  "handleSubmit settled s =
     (case handleSubmit_start s of
        (s', calls) \<Rightarrow>
          if calls = [] then (s', []) else (handleSubmit_resume settled s', calls))"

section \<open>What is rendered (the JSX of lines 115-358)\<close>

text \<open>
  Of the tree the component returns, the parts that depend on the state are kept: the
  values shown in the seven inputs, the button (\<^verbatim>\<open>disabled={isLoading}\<close> and its label),
  the alert of lines 274-285 (\<^verbatim>\<open>error && ...\<close>, so an empty message shows no alert) and the
  summary of lines 287-315 (\<^verbatim>\<open>results && ...\<close>), a list of captions with the expression
  placed under each.
\<close>

datatype child = Text string | Number int

record view =
  input_values :: FormData
  button_disabled :: bool
  button_label :: string
  error_alert :: "string option"
  results_summary :: "(string \<times> child) list option"

definition render :: "component_state \<Rightarrow> view" where
  "render s =
     \<lparr>input_values = formData s,
      button_disabled = isLoading s,
      button_label =
        (if isLoading s then ''Analyzing... This may take a few minutes'' else ''Analyze SEO''),
      error_alert = (if error s = '''' then None else Some (error s)),
      results_summary =
        (case results s of
           None \<Rightarrow> None
         | Some r \<Rightarrow>
             Some [(''URL Analyzed'', Text (ApiData.url r)),
                   (''Word Count'', Number (word_count r)),
                   (''Language'', Text (ApiData.language r))])\<rparr>"

section \<open>The component as a transition system\<close>

text \<open>
  The button of lines 253-255 carries \<^verbatim>\<open>onClick={handleSubmit}\<close> and
  \<^verbatim>\<open>disabled={isLoading}\<close>: a click on a disabled button runs no handler. Nothing else
  calls \<^verbatim>\<open>handleSubmit\<close>.
\<close>

definition button_onClick :: "component_state \<Rightarrow> component_state \<times> request list" where
  "button_onClick s = (if isLoading s then (s, []) else handleSubmit_start s)"

text \<open>
  The world is the component's state and the requests that have been issued and have not
  settled yet. Three things happen: the user changes a field, the user clicks the button,
  a request in flight settles and its handler resumes. \<open>step\<close> is \<open>None\<close> for the one
  event that cannot happen, a request settling when none is in flight. The state updates
  of one stretch of handler code (up to the \<^verbatim>\<open>await\<close>, or from it to the end) are applied
  together, as React batches them, so each stretch is one step. The resumed handler does
  not depend on which request settled.
\<close>

record world =
  ui :: component_state
  in_flight :: "request list"

definition initial_world :: world where
  "initial_world = \<lparr>ui = initial_state, in_flight = []\<rparr>"

datatype event = Change input_name string | Click | Settle fetch_outcome

fun step :: "event \<Rightarrow> world \<Rightarrow> world option" where
  "step (Change name v) w = Some (w\<lparr>ui := handleInputChange name v (ui w)\<rparr>)"
| "step Click w =
     (case button_onClick (ui w) of
        (s', calls) \<Rightarrow> Some \<lparr>ui = s', in_flight = in_flight w @ calls\<rparr>)"
| "step (Settle settled) w =
     (case in_flight w of
        [] \<Rightarrow> None
      | r # rs \<Rightarrow> Some \<lparr>ui = handleSubmit_resume settled (ui w), in_flight = rs\<rparr>)"

fun exec :: "event list \<Rightarrow> world \<Rightarrow> world option" where
  "exec [] w = Some w"
| "exec (e # es) w = (case step e w of None \<Rightarrow> None | Some w' \<Rightarrow> exec es w')"

text \<open>
  What holds of every world the component can be in: while \<open>isLoading\<close> is set, one
  request is in flight, no result is held and the error message is empty; otherwise no
  request is in flight; and a result is held together with an error message only when that
  message is the one of the validation.
\<close>

definition lifecycle_invariant :: "world \<Rightarrow> bool" where
  "lifecycle_invariant w =
     ((if isLoading (ui w)
       then length (in_flight w) = 1 \<and> results (ui w) = None \<and> error (ui w) = ''''
       else in_flight w = [])
      \<and> (results (ui w) \<noteq> None \<and> error (ui w) \<noteq> ''''
           \<longrightarrow> error (ui w) = ''Please fill in all required fields''))"

text \<open>
  A form with the three required fields filled in (with the placeholders of lines 141, 160
  and 179), and a payload, for the concrete runs below.
\<close>

definition filled_form :: FormData where
  "filled_form =
     \<lparr>url = ''https://example.com/page-to-analyze'', root_domain = ''example.com'',
      account_identifier = ''my-website'', language = ''en'', date_range = 30,
      start_date = '''', end_date = ''''\<rparr>"

definition filled_state :: component_state where
  "filled_state = \<lparr>formData = filled_form, isLoading = False, results = None, error = ''''\<rparr>"

definition sample_data :: ApiData where
  "sample_data =
     \<lparr>ApiData.url = ''https://example.com/page-to-analyze'', word_count = 1250,
      ApiData.language = ''en'',
      keyword_analysis = None, semantic_scores = None, content_structure = None,
      readability_analysis = None, sentiment_analysis = None, speed_analysis = None,
      seo_suggestions = None, content_gaps = None, advanced_keywords = None\<rparr>"

section \<open>Properties of a submission\<close>

subsection \<open>The two branches of the validation\<close>

lemma handleSubmit_start_invalid:
  "url (formData s) = '''' \<or> root_domain (formData s) = ''''
     \<or> account_identifier (formData s) = ''''
   \<Longrightarrow> handleSubmit_start s = (s\<lparr>error := ''Please fill in all required fields''\<rparr>, [])"
  by (simp add: handleSubmit_start_def)

lemma handleSubmit_start_valid:
  "url (formData s) \<noteq> '''' \<Longrightarrow> root_domain (formData s) \<noteq> ''''
   \<Longrightarrow> account_identifier (formData s) \<noteq> ''''
   \<Longrightarrow> handleSubmit_start s =
         (s\<lparr>isLoading := True, error := '''', results := None\<rparr>, [fetch_call (formData s)])"
  by (simp add: handleSubmit_start_def)

lemma handleSubmit_valid:
  "url (formData s) \<noteq> '''' \<Longrightarrow> root_domain (formData s) \<noteq> ''''
   \<Longrightarrow> account_identifier (formData s) \<noteq> ''''
   \<Longrightarrow> handleSubmit settled s =
         (handleSubmit_resume settled (s\<lparr>isLoading := True, error := '''', results := None\<rparr>),
          [fetch_call (formData s)])"
  by (simp add: handleSubmit_def handleSubmit_start_valid)

lemma handleSubmit_resume_thrown:
  "try_block settled s = Inl e \<Longrightarrow>
   handleSubmit_resume settled s =
     s\<lparr>error := (case e of Error message \<Rightarrow> message
                 | Not_an_Error \<Rightarrow> ''An error occurred during analysis''),
       isLoading := False\<rparr>"
  by (simp add: handleSubmit_resume_def catch_block_def)

lemma filled_state_valid:
  "url (formData filled_state) \<noteq> ''''" "root_domain (formData filled_state) \<noteq> ''''"
  "account_identifier (formData filled_state) \<noteq> ''''"
  by (simp_all add: filled_state_def filled_form_def)

text \<open>
  \<^bold>\<open>C1.\<close> When one of \<open>url\<close>, \<open>root_domain\<close>, \<open>account_identifier\<close> is the empty string,
  a run of \<open>handleSubmit\<close> issues no request, whatever the network would have answered, and
  leaves the message \<open>Please fill in all required fields\<close> in the error state, which the
  alert then shows. So does a click on the button, which runs \<open>handleSubmit\<close> whenever the
  button is enabled; a click on the disabled button issues no request either.
\<close>

theorem validation_failure_no_request:
  assumes "url (formData s) = '''' \<or> root_domain (formData s) = ''''
           \<or> account_identifier (formData s) = ''''"
  shows "snd (handleSubmit settled s) = []
         \<and> error (fst (handleSubmit settled s)) = ''Please fill in all required fields''
         \<and> error_alert (render (fst (handleSubmit settled s)))
             = Some ''Please fill in all required fields''
         \<and> snd (button_onClick s) = []
         \<and> (\<not> isLoading s \<longrightarrow>
               error (fst (button_onClick s)) = ''Please fill in all required fields'')"
  using assms
  by (simp add: handleSubmit_def handleSubmit_start_invalid render_def button_onClick_def)

theorem validation_failure_no_request_witness:
  "url (formData initial_state) = ''''
   \<and> \<not> isLoading initial_state
   \<and> snd (handleSubmit (Fetch_rejected Not_an_Error) initial_state) = []
   \<and> error (fst (handleSubmit (Fetch_rejected Not_an_Error) initial_state))
       = ''Please fill in all required fields''
   \<and> snd (button_onClick initial_state) = []
   \<and> error (fst (button_onClick initial_state)) = ''Please fill in all required fields''"
  using validation_failure_no_request [of initial_state "Fetch_rejected Not_an_Error"]
  by (simp add: initial_state_def initial_formData_def)

text \<open>
  \<^bold>\<open>C2.\<close> When the three required fields are non-empty, the synchronous part of
  \<open>handleSubmit\<close> sets \<open>isLoading\<close>, empties the error and the result, and issues one
  request: a \<open>POST\<close> to the analysis endpoint whose body is the form as a JSON object with
  the members \<open>url\<close>, \<open>root_domain\<close>, \<open>account_identifier\<close>, \<open>language\<close>, \<open>date_range\<close>,
  \<open>start_date\<close>, \<open>end_date\<close>. The rest of the handler issues no further request. A click on
  the enabled button does the same, being a call of the handler.
\<close>

theorem valid_submission_issues_one_post:
  assumes "url (formData s) \<noteq> ''''" and "root_domain (formData s) \<noteq> ''''"
    and "account_identifier (formData s) \<noteq> ''''"
  shows "handleSubmit_start s =
           (s\<lparr>isLoading := True, error := '''', results := None\<rparr>,
            [\<lparr>resource = ''https://seo-analyzer-api-n3b8.onrender.com/analyze'',
              http_method = ''POST'',
              headers = [(''Content-Type'', ''application/json'')],
              body = JObject
                [(''url'', JString (url (formData s))),
                 (''root_domain'', JString (root_domain (formData s))),
                 (''account_identifier'', JString (account_identifier (formData s))),
                 (''language'', JString (language (formData s))),
                 (''date_range'', JNumber (date_range (formData s))),
                 (''start_date'', JString (start_date (formData s))),
                 (''end_date'', JString (end_date (formData s)))]\<rparr>])
         \<and> snd (handleSubmit settled s) = snd (handleSubmit_start s)
         \<and> (\<not> isLoading s \<longrightarrow> button_onClick s = handleSubmit_start s)"
  using assms
  by (simp add: handleSubmit_def handleSubmit_start_valid fetch_call_def JSON_stringify_def
      button_onClick_def)

theorem valid_submission_issues_one_post_witness:
  "url (formData filled_state) \<noteq> '''' \<and> root_domain (formData filled_state) \<noteq> ''''
   \<and> account_identifier (formData filled_state) \<noteq> ''''
   \<and> isLoading (fst (handleSubmit_start filled_state))
   \<and> results (fst (handleSubmit_start filled_state)) = None
   \<and> error (fst (handleSubmit_start filled_state)) = ''''
   \<and> length (snd (handleSubmit (Fetch_rejected Not_an_Error) filled_state)) = 1
   \<and> button_onClick filled_state = handleSubmit_start filled_state"
  using valid_submission_issues_one_post
    [OF filled_state_valid, of "Fetch_rejected Not_an_Error"]
  by (simp add: filled_state_def filled_form_def)

subsection \<open>The response\<close>

text \<open>
  \<^bold>\<open>C3.\<close> Let the required fields be filled in and let the response be well-formed: its
  body parses to a value \<open>d\<close> of the shape \<^verbatim>\<open>ApiResponse\<close>. When the HTTP status is not a
  success, or the \<open>success\<close> flag of \<open>d\<close> is false, the submission ends with \<open>isLoading\<close>
  false, no result and the error message \<open>d.error\<close> when that string is present and not
  empty, and \<open>Analysis failed\<close> otherwise. A present, non-empty \<open>d.error\<close> is what the alert
  shows.
\<close>

theorem server_failure_message:
  assumes "url (formData s) \<noteq> ''''" and "root_domain (formData s) \<noteq> ''''"
    and "account_identifier (formData s) \<noteq> ''''"
    and "\<not> status_ok \<or> \<not> success d"
  shows "fst (handleSubmit (Fetch_resolved \<lparr>ok = status_ok, json = Json_resolved d\<rparr>) s) =
           s\<lparr>isLoading := False, results := None,
             error := (case ApiResponse.error d of
                         None \<Rightarrow> ''Analysis failed''
                       | Some m \<Rightarrow> if m = '''' then ''Analysis failed'' else m)\<rparr>
         \<and> (\<forall>m. ApiResponse.error d = Some m \<and> m \<noteq> '''' \<longrightarrow>
               error_alert (render (fst (handleSubmit
                 (Fetch_resolved \<lparr>ok = status_ok, json = Json_resolved d\<rparr>) s))) = Some m)"
proof -
  let ?s1 = "s\<lparr>isLoading := True, error := '''', results := None\<rparr>"
  let ?settled = "Fetch_resolved \<lparr>ok = status_ok, json = Json_resolved d\<rparr>"
  have thrown: "try_block ?settled ?s1
                  = Inl (Error (string_or (ApiResponse.error d) ''Analysis failed''))"
    using assms(4) by (auto simp add: try_block_def)
  have final: "fst (handleSubmit ?settled s) =
                 s\<lparr>isLoading := False, results := None,
                   error := string_or (ApiResponse.error d) ''Analysis failed''\<rparr>"
    using assms(1-3) by (simp add: handleSubmit_valid handleSubmit_resume_thrown [OF thrown])
  show ?thesis
    unfolding final by (simp add: string_or_def render_def split: option.splits)
qed

theorem server_failure_message_witness:
  "url (formData filled_state) \<noteq> '''' \<and> root_domain (formData filled_state) \<noteq> ''''
   \<and> account_identifier (formData filled_state) \<noteq> ''''
   \<and> \<not> success \<lparr>success = False, data = None, ApiResponse.error = Some ''Page not reachable''\<rparr>
   \<and> error (fst (handleSubmit
      (Fetch_resolved
        \<lparr>ok = True,
         json = Json_resolved
           \<lparr>success = False, data = None, ApiResponse.error = Some ''Page not reachable''\<rparr>\<rparr>)
      filled_state)) = ''Page not reachable''
   \<and> error_alert (render (fst (handleSubmit
      (Fetch_resolved
        \<lparr>ok = True,
         json = Json_resolved
           \<lparr>success = False, data = None, ApiResponse.error = Some ''Page not reachable''\<rparr>\<rparr>)
      filled_state))) = Some ''Page not reachable''"
  using server_failure_message [of filled_state True
      "\<lparr>success = False, data = None, ApiResponse.error = Some ''Page not reachable''\<rparr>"]
  by (simp add: filled_state_valid render_def)

text \<open>
  Said of every response with a non-success status, and of every error string, this fails
  three times. A response with a non-success status and a body that is not JSON ends with
  the parser's message, which is neither a string the server supplied as \<open>error\<close> nor
  \<open>Analysis failed\<close>. A response with a non-success status and the body \<^verbatim>\<open>null\<close>, which is
  JSON and not of the shape \<^verbatim>\<open>ApiResponse\<close>, ends with the message of the \<^verbatim>\<open>TypeError\<close> that
  \<^verbatim>\<open>data.error\<close> throws on line 99. A response with \<open>success\<close> false and the empty string
  as \<open>error\<close> ends with \<open>Analysis failed\<close>, not with the string supplied.
\<close>

theorem server_failure_message_counterexample:
  "error (fst (handleSubmit
      (Fetch_resolved
        \<lparr>ok = False, json = Json_rejected (Error ''Unexpected token < in JSON at position 0'')\<rparr>)
      filled_state)) = ''Unexpected token < in JSON at position 0''
   \<and> ''Unexpected token < in JSON at position 0'' \<noteq> ''Analysis failed''
   \<and> error (fst (handleSubmit
      (Fetch_resolved
        \<lparr>ok = False,
         json = Json_resolved_null ''Cannot read properties of null (reading 'error')''\<rparr>)
      filled_state)) = ''Cannot read properties of null (reading 'error')''
   \<and> ''Cannot read properties of null (reading 'error')'' \<noteq> ''Analysis failed''
   \<and> error (fst (handleSubmit
      (Fetch_resolved
        \<lparr>ok = True,
         json = Json_resolved \<lparr>success = False, data = None, ApiResponse.error = Some ''''\<rparr>\<rparr>)
      filled_state)) = ''Analysis failed''
   \<and> ''Analysis failed'' \<noteq> ''''"
  by (simp add: handleSubmit_valid filled_state_valid handleSubmit_resume_def try_block_def
      catch_block_def string_or_def)

text \<open>
  \<^bold>\<open>C4.\<close> Let the required fields be filled in. When \<open>response.json()\<close> rejects, as it does
  on a body that is not JSON, the submission ends with \<open>isLoading\<close> false, no result, and as
  error message the message of the value thrown when it is an \<open>Error\<close> (a parser's
  \<open>SyntaxError\<close> is one); only a thrown value that is no \<open>Error\<close> gives
  \<open>An error occurred during analysis\<close>. The HTTP status plays no part.
\<close>

theorem malformed_body_message:
  assumes "url (formData s) \<noteq> ''''" and "root_domain (formData s) \<noteq> ''''"
    and "account_identifier (formData s) \<noteq> ''''"
  shows "fst (handleSubmit (Fetch_resolved \<lparr>ok = status_ok, json = Json_rejected e\<rparr>) s) =
           s\<lparr>isLoading := False, results := None,
             error := (case e of
                         Error message \<Rightarrow> message
                       | Not_an_Error \<Rightarrow> ''An error occurred during analysis'')\<rparr>"
proof -
  let ?s1 = "s\<lparr>isLoading := True, error := '''', results := None\<rparr>"
  have "try_block (Fetch_resolved \<lparr>ok = status_ok, json = Json_rejected e\<rparr>) ?s1 = Inl e"
    by (simp add: try_block_def)
  from handleSubmit_resume_thrown [OF this] assms show ?thesis
    by (simp add: handleSubmit_valid)
qed

theorem malformed_body_message_witness:
  "url (formData filled_state) \<noteq> '''' \<and> root_domain (formData filled_state) \<noteq> ''''
   \<and> account_identifier (formData filled_state) \<noteq> ''''
   \<and> fst (handleSubmit
      (Fetch_resolved \<lparr>ok = False, json = Json_rejected (Error ''Unexpected end of JSON input'')\<rparr>)
      filled_state)
   = filled_state\<lparr>isLoading := False, results := None,
       error := ''Unexpected end of JSON input''\<rparr>"
  using malformed_body_message [of filled_state False "Error ''Unexpected end of JSON input''"]
  by (simp add: filled_state_valid)

text \<open>
  The message shown for a body that is not JSON is the parser's, and so it is neither of
  the two fixed messages of the handler.
\<close>

theorem malformed_body_message_counterexample:
  "error (fst (handleSubmit
      (Fetch_resolved
        \<lparr>ok = True, json = Json_rejected (Error ''Unexpected token < in JSON at position 0'')\<rparr>)
      filled_state)) = ''Unexpected token < in JSON at position 0''
   \<and> ''Unexpected token < in JSON at position 0'' \<noteq> ''Analysis failed''
   \<and> ''Unexpected token < in JSON at position 0'' \<noteq> ''An error occurred during analysis''"
  by (simp add: handleSubmit_valid filled_state_valid handleSubmit_resume_def try_block_def
      catch_block_def)

text \<open>
  \<^bold>\<open>C5.\<close> Let the required fields be filled in and let the body of the response parse to
  \<open>d\<close>, with \<open>success\<close> true and no \<open>data\<close>. The submission ends with \<open>isLoading\<close> false, no
  result and the error message \<open>d.error\<close> when that string is present and not empty, and
  \<open>Analysis failed\<close> otherwise.
\<close>

theorem success_without_data_message:
  assumes "url (formData s) \<noteq> ''''" and "root_domain (formData s) \<noteq> ''''"
    and "account_identifier (formData s) \<noteq> ''''"
    and "success d" and "data d = None"
  shows "fst (handleSubmit (Fetch_resolved \<lparr>ok = status_ok, json = Json_resolved d\<rparr>) s) =
           s\<lparr>isLoading := False, results := None,
             error := (case ApiResponse.error d of
                         None \<Rightarrow> ''Analysis failed''
                       | Some m \<Rightarrow> if m = '''' then ''Analysis failed'' else m)\<rparr>"
proof -
  let ?s1 = "s\<lparr>isLoading := True, error := '''', results := None\<rparr>"
  have "try_block (Fetch_resolved \<lparr>ok = status_ok, json = Json_resolved d\<rparr>) ?s1
          = Inl (Error (string_or (ApiResponse.error d) ''Analysis failed''))"
    using assms(5) by (simp add: try_block_def)
  from handleSubmit_resume_thrown [OF this] assms(1-3) show ?thesis
    by (simp add: handleSubmit_valid string_or_def split: option.splits)
qed

theorem success_without_data_message_witness:
  "url (formData filled_state) \<noteq> '''' \<and> root_domain (formData filled_state) \<noteq> ''''
   \<and> account_identifier (formData filled_state) \<noteq> ''''
   \<and> success \<lparr>success = True, data = None, ApiResponse.error = None\<rparr>
   \<and> data \<lparr>success = True, data = None, ApiResponse.error = None\<rparr> = None
   \<and> fst (handleSubmit
      (Fetch_resolved
        \<lparr>ok = True,
         json = Json_resolved \<lparr>success = True, data = None, ApiResponse.error = None\<rparr>\<rparr>)
      filled_state)
   = filled_state\<lparr>isLoading := False, results := None, error := ''Analysis failed''\<rparr>"
  using success_without_data_message [of filled_state
      "\<lparr>success = True, data = None, ApiResponse.error = None\<rparr>" True]
  by (simp add: filled_state_valid)

text \<open>
  With \<open>success\<close> true, no \<open>data\<close> and an \<open>error\<close> string, the message is that string and
  not the fallback.
\<close>

theorem success_without_data_message_counterexample:
  "error (fst (handleSubmit
      (Fetch_resolved
        \<lparr>ok = True,
         json = Json_resolved
           \<lparr>success = True, data = None, ApiResponse.error = Some ''Quota exceeded''\<rparr>\<rparr>)
      filled_state)) = ''Quota exceeded''
   \<and> ''Quota exceeded'' \<noteq> ''Analysis failed''"
  by (simp add: handleSubmit_valid filled_state_valid handleSubmit_resume_def try_block_def
      catch_block_def string_or_def)

section \<open>Properties of the date range field\<close>

lemma decimal_digit_char:
  assumes "is_radix_digit 10 c"
  shows "c \<in> set ''0123456789''"
proof -
  let ?n = "of_char c :: nat"
  from assms have "48 \<le> ?n \<and> ?n \<le> 57"
    by (auto simp add: is_radix_digit_def digit_value_def Let_def split: if_splits)
  then have "\<exists>d\<in>set ''0123456789''. ?n = of_char d"
    by (simp del: of_char_eq_iff) arith
  then obtain d where "d \<in> set ''0123456789''" and "?n = of_char d" ..
  then show ?thesis by simp
qed

lemma takeWhile_none: "\<forall>c\<in>set S. \<not> P c \<Longrightarrow> takeWhile P S = []"
  by (cases S) auto

text \<open>A string without a decimal digit has no integer prefix in either radix.\<close>

lemma parseInt_no_digit:
  assumes "\<forall>c\<in>set v. c \<notin> set ''0123456789''"
  shows "parseInt v = None"
proof -
  define S0 where "S0 = dropWhile is_StrWhiteSpaceChar v"
  define S1 where "S1 = (if take 1 S0 = ''+'' \<or> take 1 S0 = ''-'' then drop 1 S0 else S0)"
  have "set S0 \<subseteq> set v"
    unfolding S0_def by (rule set_dropWhileD [THEN subsetI])
  moreover have "set S1 \<subseteq> set S0"
    unfolding S1_def by (auto dest: in_set_dropD)
  ultimately have sub: "set S1 \<subseteq> set v" by blast
  have no0: "CHR ''0'' \<notin> set S1" using sub assms by auto
  have "take 2 S1 \<noteq> ''0x'' \<and> take 2 S1 \<noteq> ''0X''"
  proof (cases S1)
    case Nil
    then show ?thesis by simp
  next
    case (Cons a S')
    with no0 show ?thesis by auto
  qed
  moreover have "\<not> is_radix_digit 10 c" if "c \<in> set S1" for c
    using that sub assms decimal_digit_char by blast
  then have "takeWhile (is_radix_digit 10) S1 = []"
    by (intro takeWhile_none) blast
  ultimately have "(let stripPrefix = (take 2 S1 = ''0x'' \<or> take 2 S1 = ''0X'');
                        R = (if stripPrefix then 16 else 10);
                        S = (if stripPrefix then drop 2 S1 else S1);
                        Z = takeWhile (is_radix_digit R) S
                    in Z = []) = True"
    by (simp add: Let_def)
  then show ?thesis
    unfolding parseInt_def S0_def [symmetric] Let_def S1_def [symmetric] by (simp add: Let_def)
qed

lemma parseInt_400: "parseInt ''400'' = Some 400"
  by (simp add: parseInt_def is_StrWhiteSpaceChar_def is_radix_digit_def digit_value_def)

text \<open>
  \<^bold>\<open>C8.\<close> Typing \<open>v\<close> into the \<open>date_range\<close> field stores \<open>parseInt v\<close> when that is a number
  other than zero, and 30 when it is \<open>NaN\<close> or zero. Text without a decimal digit stores 30,
  and \<open>400\<close> is stored as 400: nothing compares the value with the \<open>max\<close> of the input
  element.
\<close>

theorem date_range_coercion:
  "date_range (formData (handleInputChange Name_date_range v s)) =
     (case parseInt v of None \<Rightarrow> 30 | Some n \<Rightarrow> if n = 0 then 30 else n)
   \<and> ((\<forall>c\<in>set v. c \<notin> set ''0123456789'') \<longrightarrow>
        date_range (formData (handleInputChange Name_date_range v s)) = 30)
   \<and> date_range (formData (handleInputChange Name_date_range ''400'' s)) = 400"
  by (auto simp add: handleInputChange_def number_or_def parseInt_no_digit parseInt_400
      split: option.splits)

theorem date_range_coercion_witness:
  "set ''thirty days'' \<inter> set ''0123456789'' = {}
   \<and> date_range (formData (handleInputChange Name_date_range ''thirty days'' initial_state)) = 30
   \<and> date_range (formData (handleInputChange Name_date_range ''400'' initial_state)) = 400"
  using date_range_coercion [of "''thirty days''" initial_state] by simp

text \<open>
  The text \<open>0\<close> parses, to zero, and yet 30 is stored: zero is falsy, so
  \<^verbatim>\<open>parseInt(value) || 30\<close> takes its right operand.
\<close>

theorem date_range_coercion_counterexample:
  "parseInt ''0'' = Some 0
   \<and> date_range (formData (handleInputChange Name_date_range ''0'' initial_state)) = 30"
  by (simp add: parseInt_def is_StrWhiteSpaceChar_def is_radix_digit_def digit_value_def
      handleInputChange_def number_or_def)

section \<open>Properties of the rendering\<close>

lemma handleSubmit_success:
  assumes "url (formData s) \<noteq> ''''" and "root_domain (formData s) \<noteq> ''''"
    and "account_identifier (formData s) \<noteq> ''''"
    and "success d" and "data d = Some p"
  shows "fst (handleSubmit (Fetch_resolved \<lparr>ok = True, json = Json_resolved d\<rparr>) s) =
           s\<lparr>isLoading := False, error := '''', results := Some p\<rparr>"
  using assms by (simp add: handleSubmit_valid handleSubmit_resume_def try_block_def)

text \<open>
  \<^bold>\<open>C9.\<close> When a result is held, the summary is rendered, and what it places under its
  three captions are the \<open>url\<close>, the \<open>word_count\<close> and the \<open>language\<close> of that result, as
  they are. The result held after a successful submission is the \<open>data\<close> of the response,
  so the summary then shows the fields of the payload returned.
\<close>

theorem summary_shows_payload:
  "(results s = Some r \<longrightarrow>
      results_summary (render s) =
        Some [(''URL Analyzed'', Text (ApiData.url r)),
              (''Word Count'', Number (word_count r)),
              (''Language'', Text (ApiData.language r))])
   \<and> (url (formData s) \<noteq> '''' \<and> root_domain (formData s) \<noteq> ''''
        \<and> account_identifier (formData s) \<noteq> '''' \<and> success d \<and> data d = Some p \<longrightarrow>
      results_summary (render (fst (handleSubmit
          (Fetch_resolved \<lparr>ok = True, json = Json_resolved d\<rparr>) s))) =
        Some [(''URL Analyzed'', Text (ApiData.url p)),
              (''Word Count'', Number (word_count p)),
              (''Language'', Text (ApiData.language p))])"
  by (simp add: handleSubmit_success render_def)

theorem summary_shows_payload_witness:
  "results (filled_state\<lparr>results := Some sample_data\<rparr>) = Some sample_data
   \<and> url (formData filled_state) \<noteq> '''' \<and> root_domain (formData filled_state) \<noteq> ''''
   \<and> account_identifier (formData filled_state) \<noteq> ''''
   \<and> results_summary (render (filled_state\<lparr>results := Some sample_data\<rparr>)) =
     Some [(''URL Analyzed'', Text ''https://example.com/page-to-analyze''),
           (''Word Count'', Number 1250),
           (''Language'', Text ''en'')]
   \<and> results_summary (render (fst (handleSubmit
          (Fetch_resolved
            \<lparr>ok = True,
             json = Json_resolved
               \<lparr>success = True, data = Some sample_data, ApiResponse.error = None\<rparr>\<rparr>)
          filled_state))) =
     Some [(''URL Analyzed'', Text ''https://example.com/page-to-analyze''),
           (''Word Count'', Number 1250),
           (''Language'', Text ''en'')]"
  using summary_shows_payload
    [of "filled_state\<lparr>results := Some sample_data\<rparr>" sample_data
        "\<lparr>success = True, data = Some sample_data, ApiResponse.error = None\<rparr>" sample_data]
    summary_shows_payload
    [of filled_state sample_data
        "\<lparr>success = True, data = Some sample_data, ApiResponse.error = None\<rparr>" sample_data]
  by (simp add: sample_data_def filled_state_valid)

text \<open>
  \<^bold>\<open>C10.\<close> When a required field is empty, a run of \<open>handleSubmit\<close> changes the error
  message and nothing else: the form, \<open>isLoading\<close> and the result held are those of before,
  so that a summary shown before is still shown, next to the alert with the validation
  message. A click on the button, enabled or not, leaves the same three untouched.
\<close>

theorem validation_failure_frame:
  assumes "url (formData s) = '''' \<or> root_domain (formData s) = ''''
           \<or> account_identifier (formData s) = ''''"
  shows "handleSubmit settled s = (s\<lparr>error := ''Please fill in all required fields''\<rparr>, [])
         \<and> formData (fst (handleSubmit settled s)) = formData s
         \<and> isLoading (fst (handleSubmit settled s)) = isLoading s
         \<and> results (fst (handleSubmit settled s)) = results s
         \<and> results_summary (render (fst (handleSubmit settled s))) = results_summary (render s)
         \<and> error_alert (render (fst (handleSubmit settled s)))
             = Some ''Please fill in all required fields''
         \<and> formData (fst (button_onClick s)) = formData s
         \<and> isLoading (fst (button_onClick s)) = isLoading s
         \<and> results (fst (button_onClick s)) = results s"
  using assms
  by (simp add: handleSubmit_def handleSubmit_start_invalid render_def button_onClick_def)

theorem validation_failure_frame_witness:
  "url (formData \<lparr>formData = filled_form\<lparr>url := ''''\<rparr>, isLoading = False,
       results = Some sample_data, error = ''''\<rparr>) = ''''
   \<and> results (fst (handleSubmit (Fetch_rejected Not_an_Error)
      \<lparr>formData = filled_form\<lparr>url := ''''\<rparr>, isLoading = False,
       results = Some sample_data, error = ''''\<rparr>)) = Some sample_data
   \<and> error_alert (render (fst (handleSubmit (Fetch_rejected Not_an_Error)
      \<lparr>formData = filled_form\<lparr>url := ''''\<rparr>, isLoading = False,
       results = Some sample_data, error = ''''\<rparr>)))
      = Some ''Please fill in all required fields''"
  using validation_failure_frame
    [of "\<lparr>formData = filled_form\<lparr>url := ''''\<rparr>, isLoading = False,
          results = Some sample_data, error = ''''\<rparr>" "Fetch_rejected Not_an_Error"]
  by (simp add: render_def)

section \<open>Properties of the lifecycle\<close>

subsection \<open>The invariant\<close>

lemma invariant_initial: "lifecycle_invariant initial_world"
  by (simp add: lifecycle_invariant_def initial_world_def initial_state_def)

lemma handleInputChange_frame:
  "isLoading (handleInputChange name v s) = isLoading s"
  "results (handleInputChange name v s) = results s"
  "error (handleInputChange name v s) = error s"
  by (simp_all add: handleInputChange_def)

text \<open>A click does one of three things, and a resumed handler one of two.\<close>

lemma button_onClick_cases:
  "button_onClick s = (s, [])
   \<or> (\<not> isLoading s
        \<and> button_onClick s = (s\<lparr>error := ''Please fill in all required fields''\<rparr>, []))
   \<or> (\<not> isLoading s
        \<and> button_onClick s =
            (s\<lparr>isLoading := True, error := '''', results := None\<rparr>, [fetch_call (formData s)]))"
  by (simp add: button_onClick_def handleSubmit_start_def)

lemma handleSubmit_resume_effect:
  "(\<exists>r. handleSubmit_resume settled s = s\<lparr>results := Some r, isLoading := False\<rparr>)
   \<or> (\<exists>m. handleSubmit_resume settled s = s\<lparr>error := m, isLoading := False\<rparr>)"
  by (auto simp add: handleSubmit_resume_def try_block_def catch_block_def
      split: fetch_outcome.splits json_outcome.splits)

lemma invariant_step:
  assumes "lifecycle_invariant w" and "step e w = Some w'"
  shows "lifecycle_invariant w'"
proof (cases e)
  case (Change name v)
  with assms show ?thesis
    by (auto simp add: lifecycle_invariant_def handleInputChange_frame)
next
  case Click
  from button_onClick_cases [of "ui w"] assms Click show ?thesis
    by (auto simp add: lifecycle_invariant_def split: if_splits)
next
  case (Settle settled)
  from assms Settle obtain r rs where fl: "in_flight w = r # rs"
    and w': "w' = \<lparr>ui = handleSubmit_resume settled (ui w), in_flight = rs\<rparr>"
    by (auto split: list.splits)
  from fl assms(1) have loading:
    "isLoading (ui w)" "rs = []" "results (ui w) = None" "error (ui w) = ''''"
    by (auto simp add: lifecycle_invariant_def split: if_splits)
  from handleSubmit_resume_effect [of settled "ui w"] show ?thesis
    unfolding w' lifecycle_invariant_def using loading by auto
qed

lemma invariant_exec:
  "lifecycle_invariant w \<Longrightarrow> exec es w = Some w' \<Longrightarrow> lifecycle_invariant w'"
proof (induction es arbitrary: w)
  case Nil
  then show ?case by simp
next
  case (Cons e es)
  then show ?case by (auto split: option.splits dest: invariant_step)
qed

subsection \<open>The claims\<close>

text \<open>
  \<^bold>\<open>C6.\<close> In every world reached from the initial one by field changes, clicks and
  settling requests: while \<open>isLoading\<close> is set, no result is held and the error message is
  empty; and when a result and a non-empty error message are held together, the message is
  \<open>Please fill in all required fields\<close>.
\<close>

theorem lifecycle_exclusion:
  assumes "exec es initial_world = Some w"
  shows "(isLoading (ui w) \<longrightarrow> results (ui w) = None \<and> error (ui w) = '''')
         \<and> (results (ui w) \<noteq> None \<and> error (ui w) \<noteq> ''''
              \<longrightarrow> error (ui w) = ''Please fill in all required fields'')"
  using invariant_exec [OF invariant_initial assms]
  by (simp add: lifecycle_invariant_def split: if_splits)

theorem lifecycle_exclusion_witness:
  "exec [Change Name_url ''https://example.com/page-to-analyze'',
         Change Name_root_domain ''example.com'',
         Change Name_account_identifier ''my-website'',
         Click] initial_world
     = Some \<lparr>ui = filled_state\<lparr>isLoading := True\<rparr>, in_flight = [fetch_call filled_form]\<rparr>
   \<and> isLoading (filled_state\<lparr>isLoading := True\<rparr>)
   \<and> results (filled_state\<lparr>isLoading := True\<rparr>) = None
   \<and> error (filled_state\<lparr>isLoading := True\<rparr>) = ''''"
  using lifecycle_exclusion
    [of "[Change Name_url ''https://example.com/page-to-analyze'',
          Change Name_root_domain ''example.com'',
          Change Name_account_identifier ''my-website'',
          Click]"
        "\<lparr>ui = filled_state\<lparr>isLoading := True\<rparr>, in_flight = [fetch_call filled_form]\<rparr>"]
  by (simp add: initial_world_def initial_state_def initial_formData_def filled_state_def
      filled_form_def handleInputChange_def button_onClick_def handleSubmit_start_def)

text \<open>
  A result and an error message are held together after this run: the form is filled in
  and submitted, the analysis succeeds, the user empties the \<open>url\<close> field and clicks again.
\<close>

theorem lifecycle_exclusion_counterexample:
  "exec [Change Name_url ''https://example.com/page-to-analyze'',
         Change Name_root_domain ''example.com'',
         Change Name_account_identifier ''my-website'',
         Click,
         Settle (Fetch_resolved
           \<lparr>ok = True,
            json = Json_resolved
              \<lparr>success = True, data = Some sample_data, ApiResponse.error = None\<rparr>\<rparr>),
         Change Name_url '''',
         Click] initial_world
     = Some \<lparr>ui = \<lparr>formData = filled_form\<lparr>url := ''''\<rparr>, isLoading = False,
                    results = Some sample_data,
                    error = ''Please fill in all required fields''\<rparr>,
             in_flight = []\<rparr>
   \<and> Some sample_data \<noteq> None
   \<and> ''Please fill in all required fields'' \<noteq> ''''"
  by (simp add: initial_world_def initial_state_def initial_formData_def filled_form_def
      handleInputChange_def button_onClick_def handleSubmit_start_def handleSubmit_resume_def
      try_block_def)

text \<open>
  \<^bold>\<open>C7.\<close> In every state with \<open>isLoading\<close> set, a click on the button changes nothing
  and issues no request. In every world reached from the initial one, at most one request
  is in flight, and while one is, \<open>isLoading\<close> is set, so that a click leaves the world as
  it is.
\<close>

theorem no_second_request_while_loading:
  "(isLoading s \<longrightarrow> button_onClick s = (s, []))
   \<and> (exec es initial_world = Some w \<longrightarrow>
        length (in_flight w) \<le> 1
        \<and> (in_flight w \<noteq> [] \<longrightarrow> isLoading (ui w) \<and> step Click w = Some w))"
proof -
  have "button_onClick s = (s, [])" if "isLoading s"
    using that by (simp add: button_onClick_def)
  moreover have "length (in_flight w) \<le> 1
      \<and> (in_flight w \<noteq> [] \<longrightarrow> isLoading (ui w) \<and> step Click w = Some w)"
    if "exec es initial_world = Some w"
    using invariant_exec [OF invariant_initial that]
    by (auto simp add: lifecycle_invariant_def button_onClick_def split: if_splits)
  ultimately show ?thesis by blast
qed

theorem no_second_request_while_loading_witness:
  "isLoading (filled_state\<lparr>isLoading := True\<rparr>)
   \<and> in_flight \<lparr>ui = filled_state\<lparr>isLoading := True\<rparr>, in_flight = [fetch_call filled_form]\<rparr>
       \<noteq> []
   \<and> button_onClick (filled_state\<lparr>isLoading := True\<rparr>) = (filled_state\<lparr>isLoading := True\<rparr>, [])
   \<and> exec [Change Name_url ''https://example.com/page-to-analyze'',
           Change Name_root_domain ''example.com'',
           Change Name_account_identifier ''my-website'',
           Click, Click] initial_world
       = Some \<lparr>ui = filled_state\<lparr>isLoading := True\<rparr>, in_flight = [fetch_call filled_form]\<rparr>
   \<and> step Click \<lparr>ui = filled_state\<lparr>isLoading := True\<rparr>, in_flight = [fetch_call filled_form]\<rparr>
       = Some \<lparr>ui = filled_state\<lparr>isLoading := True\<rparr>, in_flight = [fetch_call filled_form]\<rparr>"
  using no_second_request_while_loading
    [of "filled_state\<lparr>isLoading := True\<rparr>"
        "[Change Name_url ''https://example.com/page-to-analyze'',
          Change Name_root_domain ''example.com'',
          Change Name_account_identifier ''my-website'',
          Click, Click]"
        "\<lparr>ui = filled_state\<lparr>isLoading := True\<rparr>, in_flight = [fetch_call filled_form]\<rparr>"]
  by (simp add: initial_world_def initial_state_def initial_formData_def filled_state_def
      filled_form_def handleInputChange_def button_onClick_def handleSubmit_start_def)

end
